theory Spec2Isabelle
  imports Complex_Main "HOL-Library.AList"
begin

section \<open>Python values used by \<^verbatim>\<open>src/app.py\<close>\<close>

text \<open>
  A Python \<^verbatim>\<open>str\<close> is modelled as a HOL \<open>string\<close>; a character stands for the code
  point of the same number, so the model covers the strings whose code points lie below
  256. Bytes (\<^verbatim>\<open>file_content\<close>) are character lists as well.

  A raised exception is a value: every function that can raise returns
  \<open>py_exn + 'a\<close>, with \<open>Inl\<close> the exception. All classes listed are subclasses of
  Python's \<^verbatim>\<open>Exception\<close>, which is what \<^verbatim>\<open>except Exception\<close> catches.
\<close>

datatype exn_class =
  TypeError | ValueError | AttributeError | KeyError | IndexError | ReError
  | RequestException | JSONDecodeError

datatype py_exn = PyExn exn_class string

fun str_exn :: "py_exn \<Rightarrow> string" where
  "str_exn (PyExn c msg) = msg"

definition try_except :: "(py_exn + 'a) \<Rightarrow> (py_exn \<Rightarrow> py_exn + 'a) \<Rightarrow> py_exn + 'a" where
  "try_except body handler = (case body of Inl e \<Rightarrow> handler e | Inr v \<Rightarrow> Inr v)"

text \<open>JSON values as Python objects (\<^verbatim>\<open>None\<close>, \<^verbatim>\<open>bool\<close>, \<^verbatim>\<open>int\<close>, \<^verbatim>\<open>float\<close>,
  \<^verbatim>\<open>str\<close>, \<^verbatim>\<open>list\<close>, \<^verbatim>\<open>dict\<close> with string keys). The floats NaN and infinity are
  not represented.\<close>

datatype json =
  JNull | JBool bool | JInt int | JFloat real | JStr string
  | JList "json list" | JDict "(string \<times> json) list"

subsection \<open>Formatting: \<^verbatim>\<open>str(int)\<close> inside f-strings\<close>

definition digit_chars :: string where
  "digit_chars = ''0123456789''"

function str_nat :: "nat \<Rightarrow> string" where
  "str_nat n =
     (if n < 10 then [digit_chars ! n]
      else str_nat (n div 10) @ [digit_chars ! (n mod 10)])"
  by pat_completeness auto
termination
  by (relation "measure id") auto

declare str_nat.simps [simp del]

definition str_int :: "int \<Rightarrow> string" where
  "str_int i = (if i < 0 then CHR ''-'' # str_nat (nat (- i)) else str_nat (nat i))"

subsection \<open>\<^verbatim>\<open>int(str)\<close> and \<^verbatim>\<open>repr(str)\<close>\<close>

definition py_isspace :: "char \<Rightarrow> bool" where
  "py_isspace c =
     (let n = (of_char c :: nat)
      in (9 \<le> n \<and> n \<le> 13) \<or> (28 \<le> n \<and> n \<le> 32) \<or> n = 133 \<or> n = 160)"

definition py_isdigit :: "char \<Rightarrow> bool" where
  "py_isdigit c = (let n = (of_char c :: nat) in 48 \<le> n \<and> n \<le> 57)"

definition digit_val :: "char \<Rightarrow> nat" where
  "digit_val c = of_char c - 48"

definition py_strip :: "string \<Rightarrow> string" where
  "py_strip s = rev (dropWhile py_isspace (rev (dropWhile py_isspace s)))"

fun no_double_underscore :: "string \<Rightarrow> bool" where
  "no_double_underscore (a # b # cs) =
     (\<not> (a = CHR ''_'' \<and> b = CHR ''_'') \<and> no_double_underscore (b # cs))"
| "no_double_underscore cs = True"

definition int_literal_ok :: "string \<Rightarrow> bool" where
  "int_literal_ok s =
     (s \<noteq> [] \<and> py_isdigit (hd s) \<and> py_isdigit (last s)
      \<and> list_all (\<lambda>c. py_isdigit c \<or> c = CHR ''_'') s \<and> no_double_underscore s)"

definition digits_val :: "string \<Rightarrow> nat" where
  "digits_val s = foldl (\<lambda>acc c. 10 * acc + digit_val c) 0 (filter py_isdigit s)"

definition hex_chars :: string where
  "hex_chars = ''0123456789abcdef''"

definition py_printable :: "char \<Rightarrow> bool" where
  "py_printable c =
     (let n = (of_char c :: nat) in (32 \<le> n \<and> n \<le> 126) \<or> (161 \<le> n \<and> n \<noteq> 173))"

definition repr_char :: "char \<Rightarrow> char \<Rightarrow> string" where
  "repr_char quote c =
     (if c = quote \<or> c = CHR 0x5C then [CHR 0x5C, c]
      else if c = CHR 0x0A then [CHR 0x5C, CHR ''n'']
      else if c = CHR 0x0D then [CHR 0x5C, CHR ''r'']
      else if c = CHR 0x09 then [CHR 0x5C, CHR ''t'']
      else if py_printable c then [c]
      else [CHR 0x5C, CHR ''x'', hex_chars ! (of_char c div 16), hex_chars ! (of_char c mod 16)])"

definition py_repr :: "string \<Rightarrow> string" where
  "py_repr s =
     (let quote = (if CHR 0x27 \<in> set s \<and> CHR 0x22 \<notin> set s then CHR 0x22 else CHR 0x27)
      in [quote] @ concat (map (repr_char quote) s) @ [quote])"

text \<open>\<^verbatim>\<open>int(s)\<close> for a string: surrounding whitespace is stripped, one sign is allowed,
  digits may be grouped by single underscores. (The digit-count limit of recent
  interpreters is not modelled.)\<close>

definition py_int :: "string \<Rightarrow> py_exn + int" where
  "py_int s =
     (let t = py_strip s;
          neg = (t \<noteq> [] \<and> hd t = CHR ''-'');
          u = (if t \<noteq> [] \<and> (hd t = CHR ''-'' \<or> hd t = CHR ''+'') then tl t else t)
      in if int_literal_ok u
         then Inr (if neg then - int (digits_val u) else int (digits_val u))
         else Inl (PyExn ValueError (''invalid literal for int() with base 10: '' @ py_repr s)))"

subsection \<open>\<^verbatim>\<open>base64.b64encode\<close>\<close>

definition b64_chars :: string where
  "b64_chars = ''ABCDEFGHIJKLMNOPQRSTUVWXYZabcdefghijklmnopqrstuvwxyz0123456789+/''"

fun b64encode :: "string \<Rightarrow> string" where
  "b64encode [] = []"
| "b64encode [a] =
     (let x = (of_char a :: nat)
      in [b64_chars ! (x div 4), b64_chars ! ((x mod 4) * 16), CHR ''='', CHR ''=''])"
| "b64encode [a, b] =
     (let x = (of_char a :: nat); y = (of_char b :: nat)
      in [b64_chars ! (x div 4), b64_chars ! ((x mod 4) * 16 + y div 16),
          b64_chars ! ((y mod 16) * 4), CHR ''=''])"
| "b64encode (a # b # c # rest) =
     (let x = (of_char a :: nat); y = (of_char b :: nat); z = (of_char c :: nat)
      in [b64_chars ! (x div 4), b64_chars ! ((x mod 4) * 16 + y div 16),
          b64_chars ! ((y mod 16) * 4 + z div 64), b64_chars ! (z mod 64)] @ b64encode rest)"

section \<open>The remote service\<close>

text \<open>
  A call of \<^verbatim>\<open>requests.get\<close> or \<^verbatim>\<open>requests.post\<close> either returns a response or
  raises. The service is any function from the requests issued so far and the current
  request to such an outcome; every call is appended to the list of requests sent, which is
  the state threaded through all operations.
\<close>

datatype http_verb = GET | POST

datatype payload =
  NoPayload
  | Files "string \<times> string \<times> string" "string \<times> json \<times> string"
  | JsonPayload json

record request =
  verb :: http_verb
  url :: string
  req_headers :: "(string \<times> string) list"
  req_payload :: payload

record response =
  status_code :: int
  resp_text :: string
  resp_json :: "py_exn + json"

datatype outcome = Responded response | Failed py_exn

type_synonym remote = "request list \<Rightarrow> request \<Rightarrow> outcome"

definition send :: "remote \<Rightarrow> request \<Rightarrow> request list \<Rightarrow> (py_exn + response) \<times> request list" where
  "send srv req sent =
     ((case srv sent req of Responded r \<Rightarrow> Inr r | Failed e \<Rightarrow> Inl e), sent @ [req])"

definition requests_get ::
  "remote \<Rightarrow> string \<Rightarrow> (string \<times> string) list \<Rightarrow> request list
    \<Rightarrow> (py_exn + response) \<times> request list" where
  "requests_get srv u hs sent =
     send srv \<lparr>verb = GET, url = u, req_headers = hs, req_payload = NoPayload\<rparr> sent"

definition requests_post ::
  "remote \<Rightarrow> string \<Rightarrow> (string \<times> string) list \<Rightarrow> payload \<Rightarrow> request list
    \<Rightarrow> (py_exn + response) \<times> request list" where
  "requests_post srv u hs p sent =
     send srv \<lparr>verb = POST, url = u, req_headers = hs, req_payload = p\<rparr> sent"

text \<open>The two readings of \<^verbatim>\<open>datetime.now()\<close> the client formats.\<close>

record clock =
  now_isoformat :: string
  now_timestamp :: string

section \<open>\<^verbatim>\<open>class VectaraClient\<close>\<close>

record VectaraClient =
  api_key :: string
  customer_id :: string
  corpus_id :: string
  base_url :: string
  headers :: "(string \<times> string) list"

definition VectaraClient_init :: "string \<Rightarrow> string \<Rightarrow> string \<Rightarrow> VectaraClient" where
  "VectaraClient_init k cust corp =
     \<lparr>api_key = k, customer_id = cust, corpus_id = corp,
      base_url = ''https://api.vectara.io/v2'',
      headers = [(''x-api-key'', k), (''Content-Type'', ''application/json''),
                 (''customer-id'', cust)]\<rparr>"

definition test_connection ::
  "VectaraClient \<Rightarrow> remote \<Rightarrow> request list \<Rightarrow> (py_exn + bool \<times> string) \<times> request list" where
  "test_connection self srv sent =
     (let u = base_url self @ ''/corpora/'' @ corpus_id self;
          (got, sent') = requests_get srv u (headers self) sent
      in (try_except
            (case got of
               Inl e \<Rightarrow> Inl e
             | Inr r \<Rightarrow>
                 if status_code r = 200 then Inr (True, ''Connection successful!'')
                 else if status_code r = 403
                   then Inr (False, ''403 Forbidden - Check your API key and permissions'')
                 else if status_code r = 401
                   then Inr (False, ''401 Unauthorized - Invalid API key'')
                 else if status_code r = 404
                   then Inr (False, ''404 Not Found - Invalid Corpus ID'')
                 else Inr (False, ''Error '' @ str_int (status_code r) @ '': '' @ resp_text r))
            (\<lambda>e. Inr (False, ''Connection error: '' @ str_exn e)),
          sent'))"

definition upload_file ::
  "VectaraClient \<Rightarrow> string \<Rightarrow> string \<Rightarrow> clock \<Rightarrow> remote \<Rightarrow> request list
    \<Rightarrow> (py_exn + bool \<times> string) \<times> request list" where
  "upload_file self file_content filename clk srv sent =
     (let u = base_url self @ ''/corpora/'' @ corpus_id self @ ''/upload_file'';
          hs = [(''x-api-key'', api_key self), (''customer-id'', customer_id self)];
          metadata = JDict [(''filename'', JStr filename),
                            (''upload_date'', JStr (now_isoformat clk))];
          files = Files (filename, file_content, ''application/pdf'')
                        (''metadata'', metadata, ''application/json'');
          (got, sent') = requests_post srv u hs files sent
      in (try_except
            (case got of
               Inl e \<Rightarrow> Inl e
             | Inr r \<Rightarrow>
                 if status_code r \<in> {200, 201}
                   then Inr (True, ''Successfully uploaded: '' @ filename)
                 else if status_code r = 403
                   then Inr (False,
                     ''403 Forbidden - Check corpus permissions for uploads. Response: ''
                       @ resp_text r)
                 else if status_code r = 401
                   then Inr (False,
                     ''401 Unauthorized - Invalid API key. Response: '' @ resp_text r)
                 else Inr (False, ''Upload failed ('' @ str_int (status_code r) @ ''): ''
                       @ resp_text r))
            (\<lambda>e. Inr (False, ''Error uploading '' @ filename @ '': '' @ str_exn e)),
          sent'))"

text \<open>In \<^verbatim>\<open>upload_file_v1\<close> the payload is built before the request: a customer or corpus
  identifier that \<^verbatim>\<open>int\<close> rejects raises inside the \<^verbatim>\<open>try\<close>, and no request is
  issued.\<close>

definition upload_file_v1 ::
  "VectaraClient \<Rightarrow> string \<Rightarrow> string \<Rightarrow> clock \<Rightarrow> remote \<Rightarrow> request list
    \<Rightarrow> (py_exn + bool \<times> string) \<times> request list" where
  "upload_file_v1 self file_content filename clk srv sent =
     (let u = ''https://api.vectara.io/v1/index'';
          hs = [(''x-api-key'', api_key self), (''Content-Type'', ''application/json''),
                (''customer-id'', customer_id self)];
          file_base64 = b64encode file_content;
          handler = (\<lambda>e. Inr (False, ''Error uploading '' @ filename @ '': '' @ str_exn e))
      in case py_int (customer_id self) of
           Inl e \<Rightarrow> (try_except (Inl e) handler, sent)
         | Inr cust \<Rightarrow>
        (case py_int (corpus_id self) of
           Inl e \<Rightarrow> (try_except (Inl e) handler, sent)
         | Inr corp \<Rightarrow>
        (let doc = JDict [
               (''customer_id'', JInt cust),
               (''corpus_id'', JInt corp),
               (''document'', JDict [
                  (''document_id'', JStr (''doc_'' @ now_timestamp clk @ ''_'' @ filename)),
                  (''title'', JStr filename),
                  (''metadata_json'', JDict [(''filename'', JStr filename),
                                              (''upload_date'', JStr (now_isoformat clk))]),
                  (''section'', JList [JDict [(''text'', JStr file_base64)]])])];
             (got, sent') = requests_post srv u hs (JsonPayload doc) sent
         in (try_except
               (case got of
                  Inl e \<Rightarrow> Inl e
                | Inr r \<Rightarrow>
                    if status_code r \<in> {200, 201}
                      then Inr (True, ''Successfully uploaded: '' @ filename)
                    else if status_code r = 403
                      then Inr (False, ''403 Error - Your API key doesn'' @ [CHR 0x27]
                        @ ''t have INDEX permission. Check API key settings in Vectara Console.'')
                    else Inr (False, ''Upload failed ('' @ str_int (status_code r) @ ''): ''
                          @ resp_text r))
               handler,
             sent'))))"

text \<open>\<^verbatim>\<open>query\<close> and \<^verbatim>\<open>list_documents\<close> return a pair of a result and an error; Python's
  \<^verbatim>\<open>None\<close> in the first place is \<open>JNull\<close>, the value that \<^verbatim>\<open>response.json()\<close> also
  returns for the body \<^verbatim>\<open>null\<close>.\<close>

definition query ::
  "VectaraClient \<Rightarrow> string \<Rightarrow> int \<Rightarrow> remote \<Rightarrow> request list
    \<Rightarrow> (py_exn + json \<times> string option) \<times> request list" where
  "query self query_text num_results srv sent =
     (let u = base_url self @ ''/query'';
          p = JDict [
            (''query'', JStr query_text),
            (''search'', JDict [
               (''corpora'', JList [JDict [(''corpus_key'', JStr (corpus_id self))]]),
               (''limit'', JInt num_results),
               (''offset'', JInt 0)]),
            (''generation'', JDict [
               (''generation_preset_name'', JStr ''vectara-summary-ext-v1.2.0''),
               (''max_used_search_results'', JInt 5)])];
          (got, sent') = requests_post srv u (headers self) (JsonPayload p) sent
      in (try_except
            (case got of
               Inl e \<Rightarrow> Inl e
             | Inr r \<Rightarrow>
                 if status_code r = 200 then
                   (case resp_json r of Inl e \<Rightarrow> Inl e | Inr j \<Rightarrow> Inr (j, None))
                 else if status_code r = 403
                   then Inr (JNull, Some (''403 Forbidden - Check query permissions: ''
                       @ resp_text r))
                 else Inr (JNull, Some (''Query failed ('' @ str_int (status_code r) @ ''): ''
                       @ resp_text r)))
            (\<lambda>e. Inr (JNull, Some (''Error querying: '' @ str_exn e))),
          sent'))"

definition list_documents ::
  "VectaraClient \<Rightarrow> remote \<Rightarrow> request list
    \<Rightarrow> (py_exn + json \<times> string option) \<times> request list" where
  "list_documents self srv sent =
     (let u = base_url self @ ''/corpora/'' @ corpus_id self @ ''/documents'';
          (got, sent') = requests_get srv u (headers self) sent
      in (try_except
            (case got of
               Inl e \<Rightarrow> Inl e
             | Inr r \<Rightarrow>
                 if status_code r = 200 then
                   (case resp_json r of Inl e \<Rightarrow> Inl e | Inr j \<Rightarrow> Inr (j, None))
                 else Inr (JNull, Some (''Failed to list documents (''
                       @ str_int (status_code r) @ ''): '' @ resp_text r)))
            (\<lambda>e. Inr (JNull, Some (''Error listing documents: '' @ str_exn e))),
          sent'))"



definition initialize_vectara ::
  "string \<Rightarrow> string \<Rightarrow> string \<Rightarrow> remote \<Rightarrow> request list
    \<Rightarrow> (py_exn + VectaraClient option \<times> string option) \<times> request list" where
  "initialize_vectara k cust corp srv sent =
     (let client = VectaraClient_init k cust corp;
          (tested, sent') = test_connection client srv sent
      in (try_except
            (case tested of
               Inl e \<Rightarrow> Inl e
             | Inr (success, message) \<Rightarrow>
                 if success then Inr (Some client, None) else Inr (None, Some message))
            (\<lambda>e. Inr (None, Some (str_exn e))),
          sent'))"

section \<open>Case-insensitive text\<close>

text \<open>The code point of the lower-case form of a character, for code points below 256:
  the letters A to Z and the upper-case letters from 192 to 222 (215, the multiplication
  sign, is not a letter) lie 32 below their lower-case forms.\<close>

definition lower_code :: "char \<Rightarrow> nat" where
  "lower_code c =
     (let n = (of_char c :: nat)
      in if (65 \<le> n \<and> n \<le> 90) \<or> (192 \<le> n \<and> n \<le> 222 \<and> n \<noteq> 215)
         then n + 32 else n)"

fun ci_prefix :: "string \<Rightarrow> string \<Rightarrow> bool" where
  "ci_prefix [] s = True"
| "ci_prefix (a # as) [] = False"
| "ci_prefix (a # as) (b # bs) = (lower_code a = lower_code b \<and> ci_prefix as bs)"

fun ci_contains :: "string \<Rightarrow> string \<Rightarrow> bool" where
  "ci_contains needle [] = (needle = [])"
| "ci_contains needle (h # t) = (ci_prefix needle (h # t) \<or> ci_contains needle t)"

text \<open>What it means for a failure message to name the category of a status: the word of
  the category occurs in it, in any letter case.\<close>

definition names_category :: "int \<Rightarrow> string \<Rightarrow> bool" where
  "names_category status msg =
     (if status = 401 then ci_contains ''unauthorized'' msg
      else if status = 403 then ci_contains ''forbidden'' msg \<or> ci_contains ''permission'' msg
      else if status = 404 then ci_contains ''not found'' msg
      else False)"

section \<open>The upload tab\<close>

text \<open>The Streamlit session and what the page shows. Texts that the page prefixes with a
  pictograph are constructors of their own.\<close>

record session_state =
  vectara_client :: "VectaraClient option"
  uploaded_files_list :: "string list"
  connected :: bool

datatype shown =
  St_success string | St_error string | Status_text string | Progress nat nat
  | Warning_connect_first

datatype upload_method = V2_API | V1_API

record uploaded_file =
  file_name :: string
  file_bytes :: string

record upload_run =
  success_count :: nat
  session :: session_state
  page :: "shown list"
  requests_sent :: "request list"

text \<open>The body of \<^verbatim>\<open>for i, file in enumerate(uploaded_files)\<close>. A session without a
  client object raises \<^verbatim>\<open>AttributeError\<close> at the method call.\<close>

fun upload_loop ::
  "upload_method \<Rightarrow> (nat \<Rightarrow> clock) \<Rightarrow> remote \<Rightarrow> nat \<Rightarrow> nat \<Rightarrow> uploaded_file list
    \<Rightarrow> upload_run \<Rightarrow> py_exn + upload_run" where
  "upload_loop m clk srv total_files i [] run = Inr run"
| "upload_loop m clk srv total_files i (file # files) run =
     (let run1 = run\<lparr>page := page run @ [Status_text (''Uploading '' @ file_name file @ ''...'')]\<rparr>
      in case vectara_client (session run1) of
           None \<Rightarrow> Inl (PyExn AttributeError
             (if m = V1_API
              then [CHR 0x27] @ ''NoneType'' @ [CHR 0x27] @ '' object has no attribute ''
                     @ [CHR 0x27] @ ''upload_file_v1'' @ [CHR 0x27]
              else [CHR 0x27] @ ''NoneType'' @ [CHR 0x27] @ '' object has no attribute ''
                     @ [CHR 0x27] @ ''upload_file'' @ [CHR 0x27]))
         | Some client \<Rightarrow>
        (let (res, sent') =
               (if m = V1_API
                then upload_file_v1 client (file_bytes file) (file_name file) (clk i) srv
                       (requests_sent run1)
                else upload_file client (file_bytes file) (file_name file) (clk i) srv
                       (requests_sent run1))
         in case res of
              Inl e \<Rightarrow> Inl e
            | Inr (success, message) \<Rightarrow>
           (let run2 =
                  (if success
                   then run1\<lparr>page := page run1 @ [St_success message],
                              success_count := success_count run1 + 1,
                              session := (session run1)\<lparr>uploaded_files_list :=
                                (if file_name file \<in> set (uploaded_files_list (session run1))
                                 then uploaded_files_list (session run1)
                                 else uploaded_files_list (session run1) @ [file_name file])\<rparr>,
                              requests_sent := sent'\<rparr>
                   else run1\<lparr>page := page run1 @ [St_error message], requests_sent := sent'\<rparr>);
                run3 = run2\<lparr>page := page run2 @ [Progress (i + 1) total_files]\<rparr>
            in upload_loop m clk srv total_files (i + 1) files run3)))"

text \<open>Tab 1: the guard on the session, then the loop once the button is pressed with
  files chosen, then the closing status line.\<close>

definition upload_tab ::
  "session_state \<Rightarrow> upload_method \<Rightarrow> uploaded_file list \<Rightarrow> bool \<Rightarrow> (nat \<Rightarrow> clock)
    \<Rightarrow> remote \<Rightarrow> request list \<Rightarrow> py_exn + upload_run" where
  "upload_tab st m uploaded_files button clk srv sent =
     (let run0 = \<lparr>success_count = 0, session = st, page = [], requests_sent = sent\<rparr>
      in if \<not> connected st then Inr (run0\<lparr>page := [Warning_connect_first]\<rparr>)
         else if uploaded_files \<noteq> [] \<and> button then
           (case upload_loop m clk srv (length uploaded_files) 0 uploaded_files run0 of
              Inl e \<Rightarrow> Inl e
            | Inr run \<Rightarrow>
                Inr (run\<lparr>page := page run @ [Status_text (''Upload complete! ''
                  @ str_nat (success_count run) @ ''/'' @ str_nat (length uploaded_files)
                  @ '' files uploaded successfully.'')]\<rparr>))
         else Inr run0)"

section \<open>Regular expressions: \<^verbatim>\<open>re.search(pattern, text, re.IGNORECASE)\<close>\<close>

text \<open>
  \<^verbatim>\<open>extract_metrics_from_response\<close> pastes the metric name into the pattern text, so what
  is searched for is decided by Python's pattern parser. The model has three outcomes:
  a value, a raised exception, or \<open>Outside_model\<close> for pattern syntax that is not
  modelled (anchors, ranges in sets, look-around, back-references, lazy and possessive
  repeats, flags, named groups, letter escapes other than \<^verbatim>\<open>\d\<close> and \<^verbatim>\<open>\s\<close>,
  and repeats of something that can match the empty string). Nothing is claimed about
  an input whose outcome is \<open>Outside_model\<close>.
\<close>

datatype 'a modelled = Ok 'a | Raises py_exn | Outside_model

datatype cls_item = CChar char | CDigit | CSpace

datatype regex =
    Lit char
  | Dot
  | Cls bool "cls_item list"
  | Eps
  | Cat regex regex
  | Alt regex regex
  | Rep nat "nat option" regex
  | Grp "nat option" regex

definition backslash :: char where
  "backslash = CHR 0x5C"

definition digit :: regex where
  "digit = Cls False [CDigit]"

definition space :: regex where
  "space = Cls False [CSpace]"

definition seq :: "regex list \<Rightarrow> regex" where
  "seq rs = foldr Cat rs Eps"

fun alt_of :: "regex list \<Rightarrow> regex" where
  "alt_of [] = Eps"
| "alt_of [a] = a"
| "alt_of (a # b # rest) = Alt a (alt_of (b # rest))"

fun nullable :: "regex \<Rightarrow> bool" where
  "nullable (Lit c) = False"
| "nullable Dot = False"
| "nullable (Cls neg its) = False"
| "nullable Eps = True"
| "nullable (Cat a b) = (nullable a \<and> nullable b)"
| "nullable (Alt a b) = (nullable a \<or> nullable b)"
| "nullable (Rep lo hi r) = (lo = 0 \<or> nullable r)"
| "nullable (Grp k r) = nullable r"

subsection \<open>The pattern parser\<close>

text \<open>
  The parser reads the pattern one character at a time. Its state holds what has been
  read of the innermost open group (finished branches and the items of the current
  branch, newest first), the enclosing groups, and a mode for the multi-character
  tokens. Capturing groups are numbered in the order of their opening parentheses.
\<close>

datatype pmode =
    Normal | Escape | ParenOpen | ParenQ
  | ClassOpen | ClassBody bool "cls_item list" | ClassAfter bool "cls_item list"
  | ClassEscape bool "cls_item list" | ClassDash bool "cls_item list"
  | BraceLo string | BraceHi string string

record pstate =
  mode :: pmode
  enclosing :: "(nat option \<times> regex list \<times> regex list) list"
  alts :: "regex list"
  items :: "regex list"
  ngroups :: nat

definition re_error :: "string \<Rightarrow> 'a modelled" where
  "re_error msg = Raises (PyExn ReError msg)"

definition ascii_alnum :: "char \<Rightarrow> bool" where
  "ascii_alnum c =
     (let n = (of_char c :: nat)
      in (48 \<le> n \<and> n \<le> 57) \<or> (65 \<le> n \<and> n \<le> 90) \<or> (97 \<le> n \<and> n \<le> 122))"

definition push_item :: "regex \<Rightarrow> pstate \<Rightarrow> pstate modelled" where
  "push_item x st = Ok (st\<lparr>mode := Normal, items := x # items st\<rparr>)"

definition is_repeat :: "regex \<Rightarrow> bool" where
  "is_repeat x = (case x of Rep lo hi r \<Rightarrow> True | _ \<Rightarrow> False)"

definition apply_repeat :: "nat \<Rightarrow> nat option \<Rightarrow> pstate \<Rightarrow> pstate modelled" where
  "apply_repeat lo hi st =
     (case items st of
        [] \<Rightarrow> re_error ''nothing to repeat''
      | x # xs \<Rightarrow>
          if is_repeat x then re_error ''multiple repeat''
          else if nullable x then Outside_model
          else Ok (st\<lparr>mode := Normal, items := Rep lo hi x # xs\<rparr>))"

definition lazy_or_repeat :: "nat \<Rightarrow> nat option \<Rightarrow> pstate \<Rightarrow> pstate modelled" where
  "lazy_or_repeat lo hi st =
     (case items st of
        [] \<Rightarrow> re_error ''nothing to repeat''
      | x # xs \<Rightarrow> if is_repeat x then Outside_model else apply_repeat lo hi st)"

definition close_alts :: "regex list \<Rightarrow> regex list \<Rightarrow> regex" where
  "close_alts as xs = alt_of (rev (seq (rev xs) # as))"

definition open_group :: "nat option \<Rightarrow> pstate \<Rightarrow> pstate" where
  "open_group k st =
     st\<lparr>mode := Normal, enclosing := (k, alts st, items st) # enclosing st,
        alts := [], items := [],
        ngroups := (case k of None \<Rightarrow> ngroups st | Some n \<Rightarrow> n)\<rparr>"

definition step_normal :: "char \<Rightarrow> pstate \<Rightarrow> pstate modelled" where
  "step_normal c st =
     (if c = backslash then Ok (st\<lparr>mode := Escape\<rparr>)
      else if c = CHR ''('' then Ok (st\<lparr>mode := ParenOpen\<rparr>)
      else if c = CHR '')'' then
        (case enclosing st of
           [] \<Rightarrow> re_error ''unbalanced parenthesis''
         | (k, palts, pitems) # rest \<Rightarrow>
             Ok (st\<lparr>mode := Normal, enclosing := rest, alts := palts,
                    items := Grp k (close_alts (alts st) (items st)) # pitems\<rparr>))
      else if c = CHR ''|'' then
        Ok (st\<lparr>mode := Normal, alts := seq (rev (items st)) # alts st, items := []\<rparr>)
      else if c = CHR ''['' then Ok (st\<lparr>mode := ClassOpen\<rparr>)
      else if c = CHR ''*'' then apply_repeat 0 None st
      else if c = CHR ''+'' then lazy_or_repeat 1 None st
      else if c = CHR ''?'' then lazy_or_repeat 0 (Some 1) st
      else if c = CHR ''{'' then Ok (st\<lparr>mode := BraceLo []\<rparr>)
      else if c = CHR ''.'' then push_item Dot st
      else if c = CHR ''^'' \<or> c = CHR ''$'' then Outside_model
      else push_item (Lit c) st)"

definition step_class_body :: "bool \<Rightarrow> cls_item list \<Rightarrow> char \<Rightarrow> pstate \<Rightarrow> pstate modelled" where
  "step_class_body neg its c st =
     (if c = CHR '']'' \<and> its \<noteq> [] then push_item (Cls neg its) st
      else if c = backslash then Ok (st\<lparr>mode := ClassEscape neg its\<rparr>)
      else Ok (st\<lparr>mode := ClassAfter neg (its @ [CChar c])\<rparr>))"

text \<open>The bound \<^verbatim>\<open>MAXREPEAT\<close> of the interpreter; a repeat count that reaches it raises
  \<^verbatim>\<open>OverflowError\<close>, which is left outside the model.\<close>

definition MAXREPEAT :: nat where
  "MAXREPEAT = 4294967295"

definition close_brace :: "string \<Rightarrow> string \<Rightarrow> pstate \<Rightarrow> pstate modelled" where
  "close_brace lo hi st =
     (let mn = (if lo = [] then 0 else digits_val lo);
          mx = (if hi = [] then None else Some (digits_val hi))
      in if mn \<ge> MAXREPEAT \<or> (case mx of None \<Rightarrow> False | Some h \<Rightarrow> h \<ge> MAXREPEAT)
           then Outside_model
         else if (case mx of None \<Rightarrow> False | Some h \<Rightarrow> h < mn)
           then re_error ''min repeat greater than max repeat''
         else apply_repeat mn mx st)"

definition step :: "char \<Rightarrow> pstate \<Rightarrow> pstate modelled" where
  "step c st =
     (case mode st of
        Normal \<Rightarrow> step_normal c st
      | Escape \<Rightarrow>
          if c = CHR ''d'' then push_item digit st
          else if c = CHR ''s'' then push_item space st
          else if ascii_alnum c then Outside_model
          else push_item (Lit c) st
      | ParenOpen \<Rightarrow>
          if c = CHR ''?'' then Ok (st\<lparr>mode := ParenQ\<rparr>)
          else step_normal c (open_group (Some (ngroups st + 1)) st)
      | ParenQ \<Rightarrow> if c = CHR '':'' then Ok (open_group None st) else Outside_model
      | ClassOpen \<Rightarrow>
          if c = CHR ''^'' then Ok (st\<lparr>mode := ClassBody True []\<rparr>)
          else step_class_body False [] c st
      | ClassBody neg its \<Rightarrow> step_class_body neg its c st
      | ClassAfter neg its \<Rightarrow>
          if c = CHR ''-'' then Ok (st\<lparr>mode := ClassDash neg its\<rparr>)
          else step_class_body neg its c st
      | ClassEscape neg its \<Rightarrow>
          if c = CHR ''d'' then Ok (st\<lparr>mode := ClassAfter neg (its @ [CDigit])\<rparr>)
          else if c = CHR ''s'' then Ok (st\<lparr>mode := ClassAfter neg (its @ [CSpace])\<rparr>)
          else if ascii_alnum c then Outside_model
          else Ok (st\<lparr>mode := ClassAfter neg (its @ [CChar c])\<rparr>)
      | ClassDash neg its \<Rightarrow>
          if c = CHR '']'' then push_item (Cls neg (its @ [CChar CHR ''-''])) st
          else Outside_model
      | BraceLo lo \<Rightarrow>
          if py_isdigit c then Ok (st\<lparr>mode := BraceLo (lo @ [c])\<rparr>)
          else if c = CHR '','' then Ok (st\<lparr>mode := BraceHi lo []\<rparr>)
          else if c = CHR ''}'' \<and> lo \<noteq> [] then close_brace lo lo st
          else Outside_model
      | BraceHi lo hi \<Rightarrow>
          if py_isdigit c then Ok (st\<lparr>mode := BraceHi lo (hi @ [c])\<rparr>)
          else if c = CHR ''}'' then close_brace lo hi st
          else Outside_model)"

fun parse_run :: "string \<Rightarrow> pstate modelled \<Rightarrow> pstate modelled" where
  "parse_run [] p = p"
| "parse_run (c # cs) (Ok st) = parse_run cs (step c st)"
| "parse_run (c # cs) (Raises e) = Raises e"
| "parse_run (c # cs) Outside_model = Outside_model"

definition finish :: "pstate \<Rightarrow> (regex \<times> nat) modelled" where
  "finish st =
     (case mode st of
        Normal \<Rightarrow>
          if enclosing st = [] then Ok (close_alts (alts st) (items st), ngroups st)
          else re_error ''missing ), unterminated subpattern''
      | Escape \<Rightarrow> re_error ''bad escape (end of pattern)''
      | ParenOpen \<Rightarrow> re_error ''missing ), unterminated subpattern''
      | ParenQ \<Rightarrow> re_error ''unexpected end of pattern''
      | ClassOpen \<Rightarrow> re_error ''unterminated character set''
      | ClassBody neg its \<Rightarrow> re_error ''unterminated character set''
      | ClassAfter neg its \<Rightarrow> re_error ''unterminated character set''
      | ClassEscape neg its \<Rightarrow> re_error ''bad escape (end of pattern)''
      | ClassDash neg its \<Rightarrow> re_error ''unterminated character set''
      | BraceLo lo \<Rightarrow> Outside_model
      | BraceHi lo hi \<Rightarrow> Outside_model)"

definition initial :: pstate where
  "initial = \<lparr>mode = Normal, enclosing = [], alts = [], items = [], ngroups = 0\<rparr>"

definition re_compile :: "string \<Rightarrow> (regex \<times> nat) modelled" where
  "re_compile pattern =
     (case parse_run pattern (Ok initial) of
        Ok st \<Rightarrow> finish st
      | Raises e \<Rightarrow> Raises e
      | Outside_model \<Rightarrow> Outside_model)"

subsection \<open>Matching\<close>

text \<open>
  \<open>matches r s g\<close> lists every way \<open>r\<close> can match at the start of \<open>s\<close>, in the order
  in which the backtracking matcher tries them (a repeat takes one more round before
  it stops; the first branch of an alternation comes first): each entry is the text
  left over and the captured groups. Letters are compared by their lower-case forms.
\<close>

type_synonym groups = "nat \<Rightarrow> string option"

fun in_item :: "cls_item \<Rightarrow> char \<Rightarrow> bool" where
  "in_item (CChar c) x = (lower_code x = lower_code c)"
| "in_item CDigit x = py_isdigit x"
| "in_item CSpace x = py_isspace x"

fun rsize :: "regex \<Rightarrow> nat" where
  "rsize (Cat a b) = Suc (rsize a + rsize b)"
| "rsize (Alt a b) = Suc (rsize a + rsize b)"
| "rsize (Rep lo hi r) = Suc (rsize r)"
| "rsize (Grp k r) = Suc (rsize r)"
| "rsize r = 0"

function matches :: "regex \<Rightarrow> string \<Rightarrow> groups \<Rightarrow> (string \<times> groups) list" where
  "matches (Lit c) s g =
     (case s of [] \<Rightarrow> [] | x # xs \<Rightarrow> if lower_code x = lower_code c then [(xs, g)] else [])"
| "matches Dot s g =
     (case s of [] \<Rightarrow> [] | x # xs \<Rightarrow> if x \<noteq> CHR 0x0A then [(xs, g)] else [])"
| "matches (Cls neg its) s g =
     (case s of [] \<Rightarrow> []
      | x # xs \<Rightarrow> if list_ex (\<lambda>i. in_item i x) its \<noteq> neg then [(xs, g)] else [])"
| "matches Eps s g = [(s, g)]"
| "matches (Cat a b) s g = concat (map (\<lambda>(s', g'). matches b s' g') (matches a s g))"
| "matches (Alt a b) s g = matches a s g @ matches b s g"
| "matches (Grp k r) s g =
     map (\<lambda>(s', g'). (s', case k of None \<Rightarrow> g'
                             | Some n \<Rightarrow> g'(n \<mapsto> take (length s - length s') s)))
         (matches r s g)"
| "matches (Rep lo hi r) s g =
     (if hi = Some 0 then []
      else concat (map (\<lambda>(s', g').
             if length s' < length s
             then matches (Rep (lo - 1) (map_option (\<lambda>h. h - 1) hi) r) s' g' else [])
           (matches r s g)))
     @ (if lo = 0 then [(s, g)] else [])"
  by pat_completeness auto
termination
  by (relation "measures [\<lambda>(r, s, g). rsize r, \<lambda>(r, s, g). length s]") auto

text \<open>\<^verbatim>\<open>re.search\<close>: the first start position with a match, and there the first match.\<close>

fun search_from :: "regex \<Rightarrow> string \<Rightarrow> groups option" where
  "search_from r [] =
     (case matches r [] Map.empty of [] \<Rightarrow> None | (rest, g) # others \<Rightarrow> Some g)"
| "search_from r (c # t) =
     (case matches r (c # t) Map.empty of
        [] \<Rightarrow> search_from r t
      | (rest, g) # others \<Rightarrow> Some g)"

text \<open>The result is the match object reduced to what the caller reads: the number of
  groups of the pattern and the text of each group that took part, or \<open>None\<close> when
  nothing matched.\<close>

definition re_search :: "string \<Rightarrow> string \<Rightarrow> (nat \<times> groups) option modelled" where
  "re_search pattern txt =
     (case re_compile pattern of
        Raises e \<Rightarrow> Raises e
      | Outside_model \<Rightarrow> Outside_model
      | Ok (r, n) \<Rightarrow> Ok (map_option (\<lambda>g. (n, g)) (search_from r txt)))"

section \<open>\<^verbatim>\<open>extract_metrics_from_response\<close>\<close>

subsection \<open>The dynamic operations on the response\<close>

text \<open>
  The response is whatever JSON the service sent, so each operation on it is modelled
  for every kind of value, with the \<^verbatim>\<open>TypeError\<close> Python raises where the value has the
  wrong type. Of several bindings of one key in a \<open>JDict\<close> the first counts. (Slicing a
  \<^verbatim>\<open>dict\<close> raises \<^verbatim>\<open>TypeError\<close> or, in recent interpreters, \<^verbatim>\<open>KeyError\<close>; the model
  has the former. The texts of the exceptions are those of CPython 3.11.)
\<close>

fun truthy :: "json \<Rightarrow> bool" where
  "truthy JNull = False"
| "truthy (JBool b) = b"
| "truthy (JInt i) = (i \<noteq> 0)"
| "truthy (JFloat x) = (x \<noteq> 0)"
| "truthy (JStr s) = (s \<noteq> [])"
| "truthy (JList xs) = (xs \<noteq> [])"
| "truthy (JDict d) = (d \<noteq> [])"

fun type_name :: "json \<Rightarrow> string" where
  "type_name JNull = ''NoneType''"
| "type_name (JBool b) = ''bool''"
| "type_name (JInt i) = ''int''"
| "type_name (JFloat x) = ''float''"
| "type_name (JStr s) = ''str''"
| "type_name (JList xs) = ''list''"
| "type_name (JDict d) = ''dict''"

fun starts_with :: "string \<Rightarrow> string \<Rightarrow> bool" where
  "starts_with [] s = True"
| "starts_with (a # as) [] = False"
| "starts_with (a # as) (b # rest) = (a = b \<and> starts_with as rest)"

fun contains :: "string \<Rightarrow> string \<Rightarrow> bool" where
  "contains needle [] = (needle = [])"
| "contains needle (h # t) = (starts_with needle (h # t) \<or> contains needle t)"

text \<open>\<^verbatim>\<open>key in v\<close> for a string \<open>key\<close>.\<close>

fun py_in :: "string \<Rightarrow> json \<Rightarrow> py_exn + bool" where
  "py_in key (JDict d) = Inr (key \<in> fst ` set d)"
| "py_in key (JList xs) = Inr (JStr key \<in> set xs)"
| "py_in key (JStr s) = Inr (contains key s)"
| "py_in key v = Inl (PyExn TypeError
     (''argument of type '' @ [CHR 0x27] @ type_name v @ [CHR 0x27] @ '' is not iterable''))"

text \<open>\<^verbatim>\<open>v[key]\<close> for a string \<open>key\<close>.\<close>

fun py_getitem :: "json \<Rightarrow> string \<Rightarrow> py_exn + json" where
  "py_getitem (JDict d) key =
     (case map_of d key of None \<Rightarrow> Inl (PyExn KeyError (py_repr key)) | Some v \<Rightarrow> Inr v)"
| "py_getitem (JList xs) key =
     Inl (PyExn TypeError ''list indices must be integers or slices, not str'')"
| "py_getitem (JStr s) key = Inl (PyExn TypeError
     (''string indices must be integers, not '' @ [CHR 0x27] @ ''str'' @ [CHR 0x27]))"
| "py_getitem v key = Inl (PyExn TypeError
     ([CHR 0x27] @ type_name v @ [CHR 0x27] @ '' object is not subscriptable''))"

text \<open>What \<^verbatim>\<open>for result in v[:5]\<close> iterates over: the first five elements of a list,
  or the first five characters of a string, each a string of length one.\<close>

fun py_slice5 :: "json \<Rightarrow> py_exn + json list" where
  "py_slice5 (JList xs) = Inr (take 5 xs)"
| "py_slice5 (JStr s) = Inr (map (\<lambda>c. JStr [c]) (take 5 s))"
| "py_slice5 (JDict d) = Inl (PyExn TypeError
     (''unhashable type: '' @ [CHR 0x27] @ ''slice'' @ [CHR 0x27]))"
| "py_slice5 v = Inl (PyExn TypeError
     ([CHR 0x27] @ type_name v @ [CHR 0x27] @ '' object is not subscriptable''))"

text \<open>The loop that builds \<^verbatim>\<open>combined_text\<close>.\<close>

fun combine_text :: "json list \<Rightarrow> string \<Rightarrow> py_exn + string" where
  "combine_text [] combined_text = Inr combined_text"
| "combine_text (result # rest) combined_text =
     (case py_in ''text'' result of
        Inl e \<Rightarrow> Inl e
      | Inr False \<Rightarrow> combine_text rest combined_text
      | Inr True \<Rightarrow>
          (case py_getitem result ''text'' of
             Inl e \<Rightarrow> Inl e
           | Inr (JStr t) \<Rightarrow> combine_text rest (combined_text @ '' '' @ t)
           | Inr v \<Rightarrow> Inl (PyExn TypeError
               (''can only concatenate str (not '' @ [CHR 0x22] @ type_name v @ [CHR 0x22]
                  @ '') to str''))))"

subsection \<open>The two patterns and the loop over the metric names\<close>

text \<open>The text that follows the metric name in the two raw f-strings (with the doubled
  braces of the f-string already single).\<close>

definition suffix1 :: string where
  "suffix1 = [backslash] @ ''s*[:'' @ [backslash] @ ''-]?'' @ [backslash] @ ''s*'' @ [backslash] @ ''$?'' @ [backslash] @ ''s*(''
     @ [backslash] @ ''d{1,3}(?:,'' @ [backslash] @ ''d{3})*(?:'' @ [backslash] @ ''.'' @ [backslash] @ ''d{2})?)''"

definition suffix2 :: string where
  "suffix2 = [backslash] @ ''s*'' @ [backslash] @ ''(?'' @ [backslash] @ ''$?(''
     @ [backslash] @ ''d{1,3}(?:,'' @ [backslash] @ ''d{3})*(?:'' @ [backslash] @ ''.'' @ [backslash] @ ''d{2})?)''
     @ [backslash] @ '')?''"

definition patterns :: "string \<Rightarrow> string list" where
  "patterns metric = [metric @ suffix1, metric @ suffix2]"

definition replace_commas :: "string \<Rightarrow> string" where
  "replace_commas v = filter (\<lambda>c. c \<noteq> CHR '','') v"

text \<open>\<^verbatim>\<open>for pattern in patterns\<close>: the value to record for the metric, if a pattern
  matched. \<^verbatim>\<open>match.group(1)\<close> is \<^verbatim>\<open>None\<close> when group 1 took no part in the match, and
  \<^verbatim>\<open>None.replace\<close> raises.\<close>

fun try_patterns :: "string list \<Rightarrow> string \<Rightarrow> string option modelled" where
  "try_patterns [] combined_text = Ok None"
| "try_patterns (pattern # rest) combined_text =
     (case re_search pattern combined_text of
        Raises e \<Rightarrow> Raises e
      | Outside_model \<Rightarrow> Outside_model
      | Ok None \<Rightarrow> try_patterns rest combined_text
      | Ok (Some (n, g)) \<Rightarrow>
          if n < 1 then Raises (PyExn IndexError ''no such group'')
          else (case g 1 of
                  None \<Rightarrow> Raises (PyExn AttributeError
                    ([CHR 0x27] @ ''NoneType'' @ [CHR 0x27] @ '' object has no attribute ''
                       @ [CHR 0x27] @ ''replace'' @ [CHR 0x27]))
                | Some v \<Rightarrow> Ok (Some (replace_commas v))))"

fun metrics_loop ::
  "string list \<Rightarrow> string \<Rightarrow> (string \<times> string) list \<Rightarrow> (string \<times> string) list modelled" where
  "metrics_loop [] combined_text metrics = Ok metrics"
| "metrics_loop (metric # rest) combined_text metrics =
     (case try_patterns (patterns metric) combined_text of
        Raises e \<Rightarrow> Raises e
      | Outside_model \<Rightarrow> Outside_model
      | Ok None \<Rightarrow> metrics_loop rest combined_text metrics
      | Ok (Some v) \<Rightarrow> metrics_loop rest combined_text (AList.update metric v metrics))"

definition default_metric_names :: "string list" where
  "default_metric_names =
     [''Revenue'', ''Net Profit'', ''Gross Profit'', ''Total Assets'', ''Total Liabilities'']"

text \<open>The dictionary is an association list in insertion order, as a Python \<^verbatim>\<open>dict\<close>
  keeps it; \<open>AList.update\<close> overwrites the value of a key that is present and appends a
  new key.\<close>

definition initial_metrics :: "string list \<Rightarrow> (string \<times> string) list" where
  "initial_metrics names = fold (\<lambda>name d. AList.update name ''N/A'' d) names []"

definition extract_metrics_from_response ::
  "json \<Rightarrow> string list option \<Rightarrow> (string \<times> string) list modelled" where
  "extract_metrics_from_response response_data metric_names =
     (let names = (case metric_names of None \<Rightarrow> default_metric_names | Some ns \<Rightarrow> ns);
          metrics = initial_metrics names
      in if \<not> truthy response_data then Ok metrics
         else
           (case py_in ''search_results'' response_data of
              Inl e \<Rightarrow> Raises e
            | Inr False \<Rightarrow> Ok metrics
            | Inr True \<Rightarrow>
                (case py_getitem response_data ''search_results'' of
                   Inl e \<Rightarrow> Raises e
                 | Inr found \<Rightarrow>
                     (case py_slice5 found of
                        Inl e \<Rightarrow> Raises e
                      | Inr results \<Rightarrow>
                          (case combine_text results [] of
                             Inl e \<Rightarrow> Raises e
                           | Inr combined_text \<Rightarrow>
                               metrics_loop names combined_text metrics)))))"

section \<open>Notions used in the statements\<close>


text \<open>What the page reports for each file, and the service of the three-file scenario: its
  second answer is a 403, every other answer a 200.\<close>

fun is_report :: "shown \<Rightarrow> bool" where
  "is_report (St_success msg) = True"
| "is_report (St_error msg) = True"
| "is_report other = False"

fun is_success :: "shown \<Rightarrow> bool" where
  "is_success (St_success msg) = True"
| "is_success other = False"

definition second_fails_403 :: "string \<Rightarrow> remote" where
  "second_fails_403 detail sent req =
     (if length sent = 1
      then Responded \<lparr>status_code = 403, resp_text = detail,
                       resp_json = Inl (PyExn JSONDecodeError ''Expecting value'')\<rparr>
      else Responded \<lparr>status_code = 200, resp_text = ''{}'', resp_json = Inr (JDict [])\<rparr>)"

text \<open>The requests that the two upload methods put on the wire for a file, and the
  requests of a whole batch, in the order of the files: none under the structured-document
  strategy when \<^verbatim>\<open>int\<close> rejects the customer or the corpus identifier.\<close>

definition multipart_request :: "VectaraClient \<Rightarrow> clock \<Rightarrow> uploaded_file \<Rightarrow> request" where
  "multipart_request c clk f =
     \<lparr>verb = POST,
      url = base_url c @ ''/corpora/'' @ corpus_id c @ ''/upload_file'',
      req_headers = [(''x-api-key'', api_key c), (''customer-id'', customer_id c)],
      req_payload = Files (file_name f, file_bytes f, ''application/pdf'')
        (''metadata'',
         JDict [(''filename'', JStr (file_name f)), (''upload_date'', JStr (now_isoformat clk))],
         ''application/json'')\<rparr>"

definition document_request ::
  "VectaraClient \<Rightarrow> int \<Rightarrow> int \<Rightarrow> clock \<Rightarrow> uploaded_file \<Rightarrow> request" where
  "document_request c cust corp clk f =
     \<lparr>verb = POST,
      url = ''https://api.vectara.io/v1/index'',
      req_headers = [(''x-api-key'', api_key c), (''Content-Type'', ''application/json''),
                     (''customer-id'', customer_id c)],
      req_payload = JsonPayload (JDict [
         (''customer_id'', JInt cust),
         (''corpus_id'', JInt corp),
         (''document'', JDict [
            (''document_id'', JStr (''doc_'' @ now_timestamp clk @ ''_'' @ file_name f)),
            (''title'', JStr (file_name f)),
            (''metadata_json'', JDict [(''filename'', JStr (file_name f)),
                                        (''upload_date'', JStr (now_isoformat clk))]),
            (''section'', JList [JDict [(''text'', JStr (b64encode (file_bytes f)))]])])])\<rparr>"

definition upload_requests ::
  "upload_method \<Rightarrow> VectaraClient \<Rightarrow> (nat \<Rightarrow> clock) \<Rightarrow> nat \<Rightarrow> uploaded_file list \<Rightarrow> request list"
  where
  "upload_requests m c clk i files =
     (if m = V1_API then
        (case py_int (customer_id c) of
           Inl e \<Rightarrow> []
         | Inr cust \<Rightarrow>
             (case py_int (corpus_id c) of
                Inl e \<Rightarrow> []
              | Inr corp \<Rightarrow>
                  map (\<lambda>(j, f). document_request c cust corp (clk j) f) (enumerate i files)))
      else map (\<lambda>(j, f). multipart_request c (clk j) f) (enumerate i files))"

text \<open>A connected session whose client has numeric identifiers.\<close>

definition connected_session :: session_state where
  "connected_session =
     \<lparr>vectara_client = Some (VectaraClient_init ''k'' ''1'' ''2''),
      uploaded_files_list = [], connected = True\<rparr>"

section \<open>Theorems about the client\<close>











text \<open>
  C6. The claim does not hold of the code. For an answer with status 200 whose body is the
  JSON value \<^verbatim>\<open>null\<close>, \<^verbatim>\<open>query\<close> returns \<^verbatim>\<open>(None, None)\<close>: neither a result nor an
  error; \<^verbatim>\<open>list_documents\<close> does the same. The conversation tab relies on the claim: it
  tests only the error, stores the result in the history, and when it shows the entry it
  evaluates \<^verbatim>\<open>'summary' in chat['response']\<close>, which for \<^verbatim>\<open>None\<close> raises
  \<^verbatim>\<open>TypeError\<close>.
\<close>

theorem query_null_body_gives_neither:
  "fst (query (VectaraClient_init ''k'' ''1'' ''corpus'') ''total revenue'' 10
         (\<lambda>sent req. Responded \<lparr>status_code = 200, resp_text = ''null'', resp_json = Inr JNull\<rparr>) [])
     = Inr (JNull, None)
   \<and> fst (list_documents (VectaraClient_init ''k'' ''1'' ''corpus'')
         (\<lambda>sent req. Responded \<lparr>status_code = 200, resp_text = ''null'', resp_json = Inr JNull\<rparr>) [])
     = Inr (JNull, None)
   \<and> py_in ''summary'' JNull
     = Inl (PyExn TypeError (''argument of type '' @ [CHR 0x27] @ ''NoneType'' @ [CHR 0x27]
              @ '' is not iterable''))"
  by (simp add: query_def list_documents_def try_except_def requests_post_def requests_get_def
      send_def Let_def)

lemma names_forbidden: "names_category 403 (''403 Forbidden'' @ t)"
  by (simp add: names_category_def lower_code_def)

lemma names_unauthorized: "names_category 401 (''401 Unauthorized'' @ t)"
  by (simp add: names_category_def lower_code_def)

lemma names_not_found: "names_category 404 (''404 Not Found'' @ t)"
  by (simp add: names_category_def lower_code_def)

lemma names_permission: "names_category 403 (''403 Error - Your API key doesn'' @ [CHR 0x27] @ ''t have INDEX permission'' @ t)"
  by (simp add: names_category_def lower_code_def)

text \<open>
  C1 (amended). For an answer with status 401, 403 or 404 every operation returns a
  failure. \<^verbatim>\<open>test_connection\<close> names the category of all three; \<^verbatim>\<open>upload_file\<close> names
  it for 401 and 403; \<^verbatim>\<open>upload_file_v1\<close> and \<^verbatim>\<open>query\<close> name it for 403 only;
  \<^verbatim>\<open>list_documents\<close> names none. Every status an operation neither classifies nor
  accepts is passed through: the message holds the number of the status and the raw
  text of the response.
\<close>

theorem status_classification:
  assumes srv: "\<And>req. srv sent req = Responded r"
  shows
   "(status_code r \<in> {401, 403, 404} \<longrightarrow>
       (\<exists>msg. fst (test_connection self srv sent) = Inr (False, msg)
          \<and> names_category (status_code r) msg))
    \<and> (status_code r \<notin> {200, 401, 403, 404} \<longrightarrow>
       fst (test_connection self srv sent)
         = Inr (False, ''Error '' @ str_int (status_code r) @ '': '' @ resp_text r))
    \<and> (status_code r \<in> {401, 403} \<longrightarrow>
       (\<exists>msg. fst (upload_file self content name clk srv sent) = Inr (False, msg)
          \<and> names_category (status_code r) msg))
    \<and> (status_code r \<notin> {200, 201, 401, 403} \<longrightarrow>
       fst (upload_file self content name clk srv sent)
         = Inr (False, ''Upload failed ('' @ str_int (status_code r) @ ''): '' @ resp_text r))
    \<and> (status_code r = 403 \<and> \<not> isl (py_int (customer_id self)) \<and> \<not> isl (py_int (corpus_id self)) \<longrightarrow>
       (\<exists>msg. fst (upload_file_v1 self content name clk srv sent) = Inr (False, msg)
          \<and> names_category (status_code r) msg))
    \<and> (status_code r \<notin> {200, 201, 403} \<and> \<not> isl (py_int (customer_id self))
         \<and> \<not> isl (py_int (corpus_id self)) \<longrightarrow>
       fst (upload_file_v1 self content name clk srv sent)
         = Inr (False, ''Upload failed ('' @ str_int (status_code r) @ ''): '' @ resp_text r))
    \<and> (status_code r = 403 \<longrightarrow>
       (\<exists>msg. fst (query self q n srv sent) = Inr (JNull, Some msg)
          \<and> names_category (status_code r) msg))
    \<and> (status_code r \<notin> {200, 403} \<longrightarrow>
       fst (query self q n srv sent)
         = Inr (JNull, Some (''Query failed ('' @ str_int (status_code r) @ ''): '' @ resp_text r)))
    \<and> (status_code r \<noteq> 200 \<longrightarrow>
       fst (list_documents self srv sent)
         = Inr (JNull, Some (''Failed to list documents ('' @ str_int (status_code r) @ ''): ''
             @ resp_text r)))"
proof (intro conjI impI)
  assume "status_code r \<in> {401, 403, 404}"
  then show "\<exists>msg. fst (test_connection self srv sent) = Inr (False, msg)
          \<and> names_category (status_code r) msg"
    using names_forbidden [of "'' - Check your API key and permissions''"]
      names_unauthorized [of "'' - Invalid API key''"]
      names_not_found [of "'' - Invalid Corpus ID''"]
    by (auto simp: test_connection_def try_except_def requests_get_def send_def srv)
next
  assume "status_code r \<notin> {200, 401, 403, 404}"
  then show "fst (test_connection self srv sent)
         = Inr (False, ''Error '' @ str_int (status_code r) @ '': '' @ resp_text r)"
    by (simp add: test_connection_def try_except_def requests_get_def send_def srv)
next
  assume "status_code r \<in> {401, 403}"
  then show "\<exists>msg. fst (upload_file self content name clk srv sent) = Inr (False, msg)
          \<and> names_category (status_code r) msg"
    using names_forbidden [of "'' - Check corpus permissions for uploads. Response: '' @ resp_text r"]
      names_unauthorized [of "'' - Invalid API key. Response: '' @ resp_text r"]
    by (auto simp: upload_file_def try_except_def requests_post_def send_def srv Let_def)
next
  assume "status_code r \<notin> {200, 201, 401, 403}"
  then show "fst (upload_file self content name clk srv sent)
         = Inr (False, ''Upload failed ('' @ str_int (status_code r) @ ''): '' @ resp_text r)"
    by (simp add: upload_file_def try_except_def requests_post_def send_def srv Let_def)
next
  assume "status_code r = 403 \<and> \<not> isl (py_int (customer_id self)) \<and> \<not> isl (py_int (corpus_id self))"
  then show "\<exists>msg. fst (upload_file_v1 self content name clk srv sent) = Inr (False, msg)
          \<and> names_category (status_code r) msg"
    using names_permission [of "''. Check API key settings in Vectara Console.''"]
    by (auto simp: upload_file_v1_def try_except_def requests_post_def send_def srv Let_def
        split: sum.splits)
next
  assume "status_code r \<notin> {200, 201, 403} \<and> \<not> isl (py_int (customer_id self))
         \<and> \<not> isl (py_int (corpus_id self))"
  then show "fst (upload_file_v1 self content name clk srv sent)
         = Inr (False, ''Upload failed ('' @ str_int (status_code r) @ ''): '' @ resp_text r)"
    by (auto simp: upload_file_v1_def try_except_def requests_post_def send_def srv Let_def
        split: sum.splits)
next
  assume "status_code r = 403"
  then show "\<exists>msg. fst (query self q n srv sent) = Inr (JNull, Some msg)
          \<and> names_category (status_code r) msg"
    using names_forbidden [of "'' - Check query permissions: '' @ resp_text r"]
    by (auto simp: query_def try_except_def requests_post_def send_def srv Let_def)
next
  assume "status_code r \<notin> {200, 403}"
  then show "fst (query self q n srv sent)
         = Inr (JNull, Some (''Query failed ('' @ str_int (status_code r) @ ''): '' @ resp_text r))"
    by (simp add: query_def try_except_def requests_post_def send_def srv Let_def)
next
  assume "status_code r \<noteq> 200"
  then show "fst (list_documents self srv sent)
         = Inr (JNull, Some (''Failed to list documents ('' @ str_int (status_code r) @ ''): ''
             @ resp_text r))"
    by (simp add: list_documents_def try_except_def requests_get_def send_def srv Let_def)
qed

text \<open>C1 as stated fails: \<^verbatim>\<open>upload_file\<close> answers a 404 with the generic message, which
  does not name the category.\<close>

theorem upload_404_counterexample:
  "fst (upload_file (VectaraClient_init ''k'' ''1'' ''corpus'') ''%PDF'' ''a.pdf''
         \<lparr>now_isoformat = ''2024-01-01T00:00:00'', now_timestamp = ''1704067200.0''\<rparr>
         (\<lambda>sent req. Responded \<lparr>status_code = 404, resp_text = ''gone'',
                                   resp_json = Inl (PyExn JSONDecodeError ''Expecting value'')\<rparr>) [])
     = Inr (False, ''Upload failed (404): gone'')
   \<and> \<not> names_category 404 ''Upload failed (404): gone''"
  by (simp add: upload_file_def try_except_def requests_post_def send_def Let_def
      str_int_def str_nat.simps digit_chars_def names_category_def lower_code_def)

theorem status_classification_witness:
  "\<exists>msg. fst (test_connection (VectaraClient_init ''k'' ''1'' ''corpus'')
        (\<lambda>sent req. Responded \<lparr>status_code = 404, resp_text = ''gone'',
                                  resp_json = Inl (PyExn JSONDecodeError ''Expecting value'')\<rparr>) [])
       = Inr (False, msg) \<and> names_category 404 msg"
  using status_classification [of
      "\<lambda>sent req. Responded \<lparr>status_code = 404, resp_text = ''gone'',
                                  resp_json = Inl (PyExn JSONDecodeError ''Expecting value'')\<rparr>"
      "[]" "\<lparr>status_code = 404, resp_text = ''gone'',
                resp_json = Inl (PyExn JSONDecodeError ''Expecting value'')\<rparr>"
      "VectaraClient_init ''k'' ''1'' ''corpus''"]
  by simp

section \<open>Theorems about the upload tab\<close>

lemma upload_requests_Nil: "upload_requests m c clk i [] = []"
  by (simp add: upload_requests_def split: sum.splits)

lemma upload_requests_Cons:
  "upload_requests m c clk i (f # files)
     = upload_requests m c clk i [f] @ upload_requests m c clk (Suc i) files"
  by (simp add: upload_requests_def split: sum.splits)

lemma upload_step:
  "\<exists>ok msg. (if m = V1_API
              then upload_file_v1 c (file_bytes f) (file_name f) (clk i) srv sent
              else upload_file c (file_bytes f) (file_name f) (clk i) srv sent)
     = (Inr (ok, msg), sent @ upload_requests m c clk i [f])"
  by (auto simp: upload_file_def upload_file_v1_def try_except_def requests_post_def send_def
      Let_def upload_requests_def multipart_request_def document_request_def
      split: sum.splits outcome.splits prod.splits)

lemma upload_loop_runs:
  assumes "vectara_client (session run) = Some c"
  shows "\<exists>run'. upload_loop m clk srv tot i files run = Inr run'
     \<and> length (filter is_report (page run')) = length (filter is_report (page run)) + length files
     \<and> success_count run' + length (filter is_success (page run))
         = success_count run + length (filter is_success (page run'))
     \<and> requests_sent run' = requests_sent run @ upload_requests m c clk i files"
  using assms
proof (induction files arbitrary: run i)
  case Nil
  then show ?case by (simp add: upload_requests_Nil)
next
  case (Cons f files)
  let ?run1 = "run\<lparr>page := page run @ [Status_text (''Uploading '' @ file_name f @ ''...'')]\<rparr>"
  obtain ok msg where up:
    "(if m = V1_API
      then upload_file_v1 c (file_bytes f) (file_name f) (clk i) srv (requests_sent run)
      else upload_file c (file_bytes f) (file_name f) (clk i) srv (requests_sent run))
     = (Inr (ok, msg), requests_sent run @ upload_requests m c clk i [f])"
    using upload_step by blast
  show ?case
  proof (cases ok)
    case True
    let ?run3 = "?run1\<lparr>page := page ?run1 @ [St_success msg],
                            success_count := success_count ?run1 + 1,
                            session := (session ?run1)\<lparr>uploaded_files_list :=
                              (if file_name f \<in> set (uploaded_files_list (session ?run1))
                               then uploaded_files_list (session ?run1)
                               else uploaded_files_list (session ?run1) @ [file_name f])\<rparr>,
                            requests_sent := requests_sent run @ upload_requests m c clk i [f]\<rparr>\<lparr>page := page ?run1 @ [St_success msg] @ [Progress (i + 1) tot]\<rparr>"
    have c3: "vectara_client (session ?run3) = Some c" using Cons.prems by simp
    from Cons.IH [OF c3, of "i + 1"] show ?thesis
      using Cons.prems up True upload_requests_Cons [of m c clk i f files]
      by (auto simp: Let_def simp del: upload_loop.simps(1))
  next
    case False
    let ?run3 = "?run1\<lparr>page := page ?run1 @ [St_error msg], requests_sent := requests_sent run @ upload_requests m c clk i [f]\<rparr>\<lparr>page := page ?run1 @ [St_error msg] @ [Progress (i + 1) tot]\<rparr>"
    have c3: "vectara_client (session ?run3) = Some c" using Cons.prems by simp
    from Cons.IH [OF c3, of "i + 1"] show ?thesis
      using Cons.prems up False upload_requests_Cons [of m c clk i f files]
      by (auto simp: Let_def)
  qed
qed

lemma upload_tab_runs:
  assumes "connected st" and "vectara_client st = Some c" and "files \<noteq> []"
  shows "\<exists>run. upload_tab st m files True clk srv sent = Inr run
     \<and> length (filter is_report (page run)) = length files
     \<and> success_count run = length (filter is_success (page run))
     \<and> requests_sent run = sent @ upload_requests m c clk 0 files
     \<and> last (page run) = Status_text (''Upload complete! '' @ str_nat (success_count run)
           @ ''/'' @ str_nat (length files) @ '' files uploaded successfully.'')"
proof -
  let ?run0 = "\<lparr>success_count = 0, session = st, page = [], requests_sent = sent\<rparr>"
  have "vectara_client (session ?run0) = Some c" using assms by simp
  from upload_loop_runs [OF this, of m clk srv "length files" 0 files]
  obtain run' where r: "upload_loop m clk srv (length files) 0 files ?run0 = Inr run'"
    "length (filter is_report (page run')) = length files"
    "success_count run' = length (filter is_success (page run'))"
    "requests_sent run' = sent @ upload_requests m c clk 0 files"
    by auto
  show ?thesis
    using assms r by (simp add: upload_tab_def)
qed

lemma upload_requests_length:
  "length (upload_requests m c clk i files)
     = (if m = V1_API \<and> (isl (py_int (customer_id c)) \<or> isl (py_int (corpus_id c)))
        then 0 else length files)"
  by (auto simp: upload_requests_def split: sum.splits)

lemma scenario_three_files:
  assumes "connected st" and "vectara_client st = Some c"
  shows "\<exists>run. upload_tab st V2_API [f1, f2, f3] True clk (second_fails_403 detail) [] = Inr run
     \<and> page run =
        [Status_text (''Uploading '' @ file_name f1 @ ''...''),
         St_success (''Successfully uploaded: '' @ file_name f1), Progress 1 3,
         Status_text (''Uploading '' @ file_name f2 @ ''...''),
         St_error (''403 Forbidden - Check corpus permissions for uploads. Response: '' @ detail),
         Progress 2 3,
         Status_text (''Uploading '' @ file_name f3 @ ''...''),
         St_success (''Successfully uploaded: '' @ file_name f3), Progress 3 3,
         Status_text ''Upload complete! 2/3 files uploaded successfully.'']
     \<and> success_count run = 2
     \<and> requests_sent run
         = [multipart_request c (clk 0) f1, multipart_request c (clk 1) f2,
            multipart_request c (clk 2) f3]"
  using assms
  by (simp add: upload_tab_def upload_file_def try_except_def requests_post_def send_def
      second_fails_403_def Let_def str_nat.simps digit_chars_def multipart_request_def
      numeral_2_eq_2)

lemma scenario_three_files_v1:
  assumes "connected st" and "vectara_client st = Some c"
    and "py_int (customer_id c) = Inr cust" and "py_int (corpus_id c) = Inr corp"
  shows "\<exists>run. upload_tab st V1_API [f1, f2, f3] True clk (second_fails_403 detail) [] = Inr run
     \<and> page run =
        [Status_text (''Uploading '' @ file_name f1 @ ''...''),
         St_success (''Successfully uploaded: '' @ file_name f1), Progress 1 3,
         Status_text (''Uploading '' @ file_name f2 @ ''...''),
         St_error (''403 Error - Your API key doesn'' @ [CHR 0x27]
           @ ''t have INDEX permission. Check API key settings in Vectara Console.''),
         Progress 2 3,
         Status_text (''Uploading '' @ file_name f3 @ ''...''),
         St_success (''Successfully uploaded: '' @ file_name f3), Progress 3 3,
         Status_text ''Upload complete! 2/3 files uploaded successfully.'']
     \<and> success_count run = 2
     \<and> requests_sent run
         = [document_request c cust corp (clk 0) f1, document_request c cust corp (clk 1) f2,
            document_request c cust corp (clk 2) f3]"
  using assms
  by (simp add: upload_tab_def upload_file_v1_def try_except_def requests_post_def send_def
      second_fails_403_def Let_def str_nat.simps digit_chars_def document_request_def
      numeral_2_eq_2)

text \<open>
  C7. The batch upload is a sequential loop over the files that goes on after a failure.
  In a connected session with a client, pressing the button with files chosen never
  raises; the page holds one report (success or error) per file; the final count is the
  number of successes reported; the requests sent are exactly the upload requests of the
  files, one per file and in the order of the files, under either strategy (none under
  the structured-document strategy when the customer or the corpus identifier is not an
  integer, where every file is still reported, as a failure); and the last line shows the
  count of successes out of the number of files. For three files where the service
  answers the second upload with a 403 and the others with a 200, under either strategy
  all three are attempted, each outcome is shown in order, and the last line is
  \<^verbatim>\<open>Upload complete! 2/3 files uploaded successfully.\<close>
\<close>

theorem batch_upload_attempts_every_file:
  assumes "connected st" and "vectara_client st = Some c"
  shows "(files \<noteq> [] \<longrightarrow>
      (\<exists>run. upload_tab st m files True clk srv sent = Inr run
         \<and> length (filter is_report (page run)) = length files
         \<and> success_count run = length (filter is_success (page run))
         \<and> requests_sent run = sent @ upload_requests m c clk 0 files
         \<and> length (requests_sent run)
             = length sent
               + (if m = V1_API \<and> (isl (py_int (customer_id c)) \<or> isl (py_int (corpus_id c)))
                  then 0 else length files)
         \<and> last (page run) = Status_text (''Upload complete! '' @ str_nat (success_count run)
               @ ''/'' @ str_nat (length files) @ '' files uploaded successfully.'')))
   \<and> (\<exists>run. upload_tab st V2_API [f1, f2, f3] True clk (second_fails_403 detail) [] = Inr run
     \<and> page run =
        [Status_text (''Uploading '' @ file_name f1 @ ''...''),
         St_success (''Successfully uploaded: '' @ file_name f1), Progress 1 3,
         Status_text (''Uploading '' @ file_name f2 @ ''...''),
         St_error (''403 Forbidden - Check corpus permissions for uploads. Response: '' @ detail),
         Progress 2 3,
         Status_text (''Uploading '' @ file_name f3 @ ''...''),
         St_success (''Successfully uploaded: '' @ file_name f3), Progress 3 3,
         Status_text ''Upload complete! 2/3 files uploaded successfully.'']
     \<and> success_count run = 2
     \<and> requests_sent run
         = [multipart_request c (clk 0) f1, multipart_request c (clk 1) f2,
            multipart_request c (clk 2) f3])
   \<and> (py_int (customer_id c) = Inr cust \<and> py_int (corpus_id c) = Inr corp \<longrightarrow>
       (\<exists>run. upload_tab st V1_API [f1, f2, f3] True clk (second_fails_403 detail) [] = Inr run
     \<and> page run =
        [Status_text (''Uploading '' @ file_name f1 @ ''...''),
         St_success (''Successfully uploaded: '' @ file_name f1), Progress 1 3,
         Status_text (''Uploading '' @ file_name f2 @ ''...''),
         St_error (''403 Error - Your API key doesn'' @ [CHR 0x27]
           @ ''t have INDEX permission. Check API key settings in Vectara Console.''),
         Progress 2 3,
         Status_text (''Uploading '' @ file_name f3 @ ''...''),
         St_success (''Successfully uploaded: '' @ file_name f3), Progress 3 3,
         Status_text ''Upload complete! 2/3 files uploaded successfully.'']
     \<and> success_count run = 2
     \<and> requests_sent run
         = [document_request c cust corp (clk 0) f1, document_request c cust corp (clk 1) f2,
            document_request c cust corp (clk 2) f3]))"
proof (intro conjI impI)
  assume ne: "files \<noteq> []"
  from upload_tab_runs [OF assms ne, of m clk srv sent]
  show "\<exists>run. upload_tab st m files True clk srv sent = Inr run
         \<and> length (filter is_report (page run)) = length files
         \<and> success_count run = length (filter is_success (page run))
         \<and> requests_sent run = sent @ upload_requests m c clk 0 files
         \<and> length (requests_sent run)
             = length sent
               + (if m = V1_API \<and> (isl (py_int (customer_id c)) \<or> isl (py_int (corpus_id c)))
                  then 0 else length files)
         \<and> last (page run) = Status_text (''Upload complete! '' @ str_nat (success_count run)
               @ ''/'' @ str_nat (length files) @ '' files uploaded successfully.'')"
    using upload_requests_length [of m c clk 0 files] by auto
next
  show "\<exists>run. upload_tab st V2_API [f1, f2, f3] True clk (second_fails_403 detail) [] = Inr run
     \<and> page run =
        [Status_text (''Uploading '' @ file_name f1 @ ''...''),
         St_success (''Successfully uploaded: '' @ file_name f1), Progress 1 3,
         Status_text (''Uploading '' @ file_name f2 @ ''...''),
         St_error (''403 Forbidden - Check corpus permissions for uploads. Response: '' @ detail),
         Progress 2 3,
         Status_text (''Uploading '' @ file_name f3 @ ''...''),
         St_success (''Successfully uploaded: '' @ file_name f3), Progress 3 3,
         Status_text ''Upload complete! 2/3 files uploaded successfully.'']
     \<and> success_count run = 2
     \<and> requests_sent run
         = [multipart_request c (clk 0) f1, multipart_request c (clk 1) f2,
            multipart_request c (clk 2) f3]"
    by (rule scenario_three_files [OF assms])
next
  assume "py_int (customer_id c) = Inr cust \<and> py_int (corpus_id c) = Inr corp"
  then show "\<exists>run. upload_tab st V1_API [f1, f2, f3] True clk (second_fails_403 detail) [] = Inr run
     \<and> page run =
        [Status_text (''Uploading '' @ file_name f1 @ ''...''),
         St_success (''Successfully uploaded: '' @ file_name f1), Progress 1 3,
         Status_text (''Uploading '' @ file_name f2 @ ''...''),
         St_error (''403 Error - Your API key doesn'' @ [CHR 0x27]
           @ ''t have INDEX permission. Check API key settings in Vectara Console.''),
         Progress 2 3,
         Status_text (''Uploading '' @ file_name f3 @ ''...''),
         St_success (''Successfully uploaded: '' @ file_name f3), Progress 3 3,
         Status_text ''Upload complete! 2/3 files uploaded successfully.'']
     \<and> success_count run = 2
     \<and> requests_sent run
         = [document_request c cust corp (clk 0) f1, document_request c cust corp (clk 1) f2,
            document_request c cust corp (clk 2) f3]"
    using scenario_three_files_v1 [OF assms] by blast
qed

lemma py_int_1: "py_int ''1'' = Inr 1"
  by code_simp

lemma py_int_2: "py_int ''2'' = Inr 2"
  by code_simp

theorem batch_upload_attempts_every_file_witness:
  "(\<exists>run. upload_tab connected_session V2_API
       [\<lparr>file_name = ''a.pdf'', file_bytes = ''A''\<rparr>, \<lparr>file_name = ''b.pdf'', file_bytes = ''B''\<rparr>,
        \<lparr>file_name = ''c.pdf'', file_bytes = ''C''\<rparr>] True
       (\<lambda>i. \<lparr>now_isoformat = ''2024-01-01T00:00:00'', now_timestamp = ''1704067200.0''\<rparr>)
       (second_fails_403 ''no INDEX permission'') [] = Inr run
     \<and> last (page run) = Status_text ''Upload complete! 2/3 files uploaded successfully.''
     \<and> success_count run = 2 \<and> length (requests_sent run) = 3)
   \<and> (\<exists>run. upload_tab connected_session V1_API
       [\<lparr>file_name = ''a.pdf'', file_bytes = ''A''\<rparr>, \<lparr>file_name = ''b.pdf'', file_bytes = ''B''\<rparr>,
        \<lparr>file_name = ''c.pdf'', file_bytes = ''C''\<rparr>] True
       (\<lambda>i. \<lparr>now_isoformat = ''2024-01-01T00:00:00'', now_timestamp = ''1704067200.0''\<rparr>)
       (second_fails_403 ''no INDEX permission'') [] = Inr run
     \<and> last (page run) = Status_text ''Upload complete! 2/3 files uploaded successfully.''
     \<and> success_count run = 2 \<and> map url (requests_sent run)
         = [''https://api.vectara.io/v1/index'', ''https://api.vectara.io/v1/index'',
            ''https://api.vectara.io/v1/index''])"
proof -
  have c: "connected connected_session"
    and v: "vectara_client connected_session = Some (VectaraClient_init ''k'' ''1'' ''2'')"
    by (simp_all add: connected_session_def)
  have ids: "py_int (customer_id (VectaraClient_init ''k'' ''1'' ''2'')) = Inr 1
      \<and> py_int (corpus_id (VectaraClient_init ''k'' ''1'' ''2'')) = Inr 2"
    by (simp add: VectaraClient_init_def py_int_1 py_int_2)
  from batch_upload_attempts_every_file [OF c v, where files = "[]" and cust = 1 and corp = 2
      and clk = "\<lambda>i. \<lparr>now_isoformat = ''2024-01-01T00:00:00'', now_timestamp = ''1704067200.0''\<rparr>"
      and ?f1.0 = "\<lparr>file_name = ''a.pdf'', file_bytes = ''A''\<rparr>"
      and ?f2.0 = "\<lparr>file_name = ''b.pdf'', file_bytes = ''B''\<rparr>"
      and ?f3.0 = "\<lparr>file_name = ''c.pdf'', file_bytes = ''C''\<rparr>"
      and detail = "''no INDEX permission''"] ids
  show ?thesis
    by (auto simp: document_request_def)
qed

section \<open>Validation of the connection\<close>

lemma initialize_vectara_gate:
  "fst (initialize_vectara k cust corp srv sent) = Inr (Some client, None)
     \<longleftrightarrow> client = VectaraClient_init k cust corp
         \<and> (\<exists>r. srv sent \<lparr>verb = GET, url = ''https://api.vectara.io/v2/corpora/'' @ corp,
                    req_headers = [(''x-api-key'', k), (''Content-Type'', ''application/json''),
                                   (''customer-id'', cust)],
                    req_payload = NoPayload\<rparr> = Responded r
               \<and> status_code r = 200)"
  by (cases "srv sent \<lparr>verb = GET, url = ''https://api.vectara.io/v2/corpora/'' @ corp,
                    req_headers = [(''x-api-key'', k), (''Content-Type'', ''application/json''),
                                   (''customer-id'', cust)],
                    req_payload = NoPayload\<rparr>")
     (auto simp: initialize_vectara_def test_connection_def requests_get_def send_def
        try_except_def Let_def VectaraClient_init_def)

lemma initialize_vectara_sent:
  "snd (initialize_vectara k cust corp srv sent)
     = sent @ [\<lparr>verb = GET, url = ''https://api.vectara.io/v2/corpora/'' @ corp,
                    req_headers = [(''x-api-key'', k), (''Content-Type'', ''application/json''),
                                   (''customer-id'', cust)],
                    req_payload = NoPayload\<rparr>]"
  by (simp add: initialize_vectara_def test_connection_def requests_get_def send_def
        Let_def VectaraClient_init_def split: prod.splits)


text \<open>
  C2 (amended). The client's operations do not look at whether a connectivity check
  has passed: for every client and every history of requests, \<^verbatim>\<open>upload_file\<close>,
  \<^verbatim>\<open>query\<close> and \<^verbatim>\<open>list_documents\<close> each send exactly one request, and
  \<^verbatim>\<open>upload_file_v1\<close> sends one unless the customer or corpus identifier is not an
  integer. The gate is in the callers: \<^verbatim>\<open>initialize_vectara\<close> sends the request of the
  connectivity check and hands out the client exactly when the service answers that very
  request with status 200, and the upload tab of a session that is not connected sends
  nothing.
\<close>

theorem operations_send_regardless_of_validation:
  "length (snd (upload_file self content name clk srv sent)) = Suc (length sent)
   \<and> length (snd (upload_file_v1 self content name clk srv sent))
       = (if isl (py_int (customer_id self)) \<or> isl (py_int (corpus_id self))
          then length sent else Suc (length sent))
   \<and> length (snd (query self q n srv sent)) = Suc (length sent)
   \<and> length (snd (list_documents self srv sent)) = Suc (length sent)
   \<and> (fst (initialize_vectara k cust corp srv sent) = Inr (Some client, None)
        \<longleftrightarrow> client = VectaraClient_init k cust corp
            \<and> (\<exists>r. srv sent \<lparr>verb = GET, url = ''https://api.vectara.io/v2/corpora/'' @ corp,
                    req_headers = [(''x-api-key'', k), (''Content-Type'', ''application/json''),
                                   (''customer-id'', cust)],
                    req_payload = NoPayload\<rparr> = Responded r
                  \<and> status_code r = 200))
   \<and> snd (initialize_vectara k cust corp srv sent)
       = sent @ [\<lparr>verb = GET, url = ''https://api.vectara.io/v2/corpora/'' @ corp,
                    req_headers = [(''x-api-key'', k), (''Content-Type'', ''application/json''),
                                   (''customer-id'', cust)],
                    req_payload = NoPayload\<rparr>]
   \<and> (\<not> connected st \<longrightarrow>
        (\<exists>run. upload_tab st m files button clks srv sent = Inr run
           \<and> requests_sent run = sent \<and> page run = [Warning_connect_first]))"
proof (intro conjI impI)
  show "length (snd (upload_file self content name clk srv sent)) = Suc (length sent)"
    by (simp add: upload_file_def requests_post_def send_def Let_def)
  show "length (snd (upload_file_v1 self content name clk srv sent))
       = (if isl (py_int (customer_id self)) \<or> isl (py_int (corpus_id self))
          then length sent else Suc (length sent))"
    by (auto simp: upload_file_v1_def requests_post_def send_def Let_def split: sum.splits)
  show "length (snd (query self q n srv sent)) = Suc (length sent)"
    by (simp add: query_def requests_post_def send_def Let_def)
  show "length (snd (list_documents self srv sent)) = Suc (length sent)"
    by (simp add: list_documents_def requests_get_def send_def Let_def)
  show "fst (initialize_vectara k cust corp srv sent) = Inr (Some client, None)
        \<longleftrightarrow> client = VectaraClient_init k cust corp
            \<and> (\<exists>r. srv sent \<lparr>verb = GET, url = ''https://api.vectara.io/v2/corpora/'' @ corp,
                    req_headers = [(''x-api-key'', k), (''Content-Type'', ''application/json''),
                                   (''customer-id'', cust)],
                    req_payload = NoPayload\<rparr> = Responded r
                  \<and> status_code r = 200)"
    by (rule initialize_vectara_gate)
  show "snd (initialize_vectara k cust corp srv sent)
       = sent @ [\<lparr>verb = GET, url = ''https://api.vectara.io/v2/corpora/'' @ corp,
                    req_headers = [(''x-api-key'', k), (''Content-Type'', ''application/json''),
                                   (''customer-id'', cust)],
                    req_payload = NoPayload\<rparr>]"
    by (rule initialize_vectara_sent)
next
  assume "\<not> connected st"
  then show "\<exists>run. upload_tab st m files button clks srv sent = Inr run
           \<and> requests_sent run = sent \<and> page run = [Warning_connect_first]"
    by (simp add: upload_tab_def)
qed

text \<open>C2 as stated fails: a client that was only constructed, with no request ever
  sent, sends the query to the service.\<close>

theorem query_without_validation_counterexample:
  "map url (snd (query (VectaraClient_init ''k'' ''1'' ''corpus'') ''total revenue'' 10
       (\<lambda>sent req. Failed (PyExn RequestException ''unreachable'')) []))
   = [''https://api.vectara.io/v2/query'']"
  by (simp add: query_def requests_post_def send_def Let_def VectaraClient_init_def)

theorem operations_send_regardless_of_validation_witness:
  "(\<exists>run. upload_tab \<lparr>vectara_client = None, uploaded_files_list = [], connected = False\<rparr>
        V2_API [\<lparr>file_name = ''a.pdf'', file_bytes = ''A''\<rparr>] True
        (\<lambda>i. \<lparr>now_isoformat = ''2024-01-01T00:00:00'', now_timestamp = ''1704067200.0''\<rparr>)
        (\<lambda>sent req. Responded \<lparr>status_code = 200, resp_text = ''{}'', resp_json = Inr (JDict [])\<rparr>) []
        = Inr run
      \<and> requests_sent run = [] \<and> page run = [Warning_connect_first])
   \<and> fst (initialize_vectara ''k'' ''1'' ''corpus''
        (\<lambda>sent req. Responded \<lparr>status_code = 200, resp_text = ''{}'', resp_json = Inr (JDict [])\<rparr>) [])
      = Inr (Some (VectaraClient_init ''k'' ''1'' ''corpus''), None)
   \<and> fst (initialize_vectara ''k'' ''1'' ''corpus''
        (\<lambda>sent req. Responded \<lparr>status_code = 403, resp_text = ''no'', resp_json = Inr (JDict [])\<rparr>) [])
      \<noteq> Inr (Some (VectaraClient_init ''k'' ''1'' ''corpus''), None)"
  using operations_send_regardless_of_validation [where
      srv = "\<lambda>sent req. Responded \<lparr>status_code = 200, resp_text = ''{}'', resp_json = Inr (JDict [])\<rparr>"
      and sent = "[]" and k = "''k''" and cust = "''1''" and corp = "''corpus''"
      and client = "VectaraClient_init ''k'' ''1'' ''corpus''"
      and st = "\<lparr>vectara_client = None, uploaded_files_list = [], connected = False\<rparr>"
      and m = V2_API and files = "[\<lparr>file_name = ''a.pdf'', file_bytes = ''A''\<rparr>]" and button = True
      and clks = "\<lambda>i. \<lparr>now_isoformat = ''2024-01-01T00:00:00'', now_timestamp = ''1704067200.0''\<rparr>"
      and self = "VectaraClient_init ''k'' ''1'' ''corpus''" and content = "''A''"
      and name = "''a.pdf''"
      and clk = "\<lparr>now_isoformat = ''2024-01-01T00:00:00'', now_timestamp = ''1704067200.0''\<rparr>"
      and q = "''q''" and n = 10]
    operations_send_regardless_of_validation [where
      srv = "\<lambda>sent req. Responded \<lparr>status_code = 403, resp_text = ''no'', resp_json = Inr (JDict [])\<rparr>"
      and sent = "[]" and k = "''k''" and cust = "''1''" and corp = "''corpus''"
      and client = "VectaraClient_init ''k'' ''1'' ''corpus''"
      and st = "\<lparr>vectara_client = None, uploaded_files_list = [], connected = False\<rparr>"
      and m = V2_API and files = "[\<lparr>file_name = ''a.pdf'', file_bytes = ''A''\<rparr>]" and button = True
      and clks = "\<lambda>i. \<lparr>now_isoformat = ''2024-01-01T00:00:00'', now_timestamp = ''1704067200.0''\<rparr>"
      and self = "VectaraClient_init ''k'' ''1'' ''corpus''" and content = "''A''"
      and name = "''a.pdf''"
      and clk = "\<lparr>now_isoformat = ''2024-01-01T00:00:00'', now_timestamp = ''1704067200.0''\<rparr>"
      and q = "''q''" and n = 10]
  by simp

end
